theory Spec2Isabelle
  imports Main "HOL-Library.Multiset"
begin

section \<open>Results of operations\<close>

text \<open>
  A Go function that returns \<open>error\<close> either returns \<open>nil\<close>, returns an error (modelled by
  its message), panics, or has not returned for the answers of the outside world that the
  model was given (a blocked channel receive, a loop still waiting).
\<close>

datatype outcome = Nil | Err string | Panic string | Pending

section \<open>The replication process supervisor (appliance/mongodb/process.go)\<close>

subsection \<open>Data\<close>

datatype role = RoleNone | RolePrimary | RoleSync | RoleAsync | RoleOther nat

text \<open>A \<open>*discoverd.Instance\<close>; a nil pointer is \<open>None\<close> of \<open>peer option\<close>.\<close>

record peer =
  InstID :: string
  Addr :: string
  Meta :: "(string \<times> string) list"

text \<open>Indexing a Go map with a missing key gives the empty string.\<close>

definition meta_get :: "(string \<times> string) list \<Rightarrow> string \<Rightarrow> string" where
  "meta_get m k = (case map_of m k of None \<Rightarrow> [] | Some v \<Rightarrow> v)"

record config =
  Role :: role
  Upstream :: "peer option"
  Downstream :: "peer option"

text \<open>
  Modelled from the spec: \<open>Config.Equal\<close> and \<open>Config.IsNewDownstream\<close> belong to
  pkg/sirenia/state, which is not among the sources. The spec words them as "new config
  equals the last applied config" and "only the downstream changed".
\<close>

definition Equal :: "config \<Rightarrow> config \<Rightarrow> bool" where
  "Equal x y = (x = y)"

definition IsNewDownstream :: "config option \<Rightarrow> config option \<Rightarrow> bool" where
  "IsNewDownstream x y =
     (case x of None \<Rightarrow> False
      | Some a \<Rightarrow> (case y of None \<Rightarrow> False
          | Some b \<Rightarrow> Role a = Role b \<and> Upstream a = Upstream b \<and> Downstream a \<noteq> Downstream b))"

text \<open>What the supervisor does to the world outside its own fields, in order.\<close>

datatype effect =
    WriteConfig
  | CmdStart
  | CmdStop
  | InitPrimaryDB
  | ConnectLocal
  | SyncWaitStart "peer option" bool
  | SyncWaitCancel

text \<open>
  The fields of \<open>Process\<close> that the operations read or write. \<open>syncWait\<close> stands for
  \<open>cancelSyncWait\<close>: \<open>None\<close> is a closure with nothing left to cancel (the initial
  \<open>func() {}\<close>, or one whose \<open>sync.Once\<close> has fired), \<open>Some (d, w)\<close> the closure installed by
  \<open>waitForSync(d, w)\<close> and not yet called.
\<close>

record process =
  configValue :: "config option"
  configApplied :: bool
  runningValue :: bool
  syncedDownstreamValue :: "peer option"
  Singleton :: bool
  syncWait :: "(peer option \<times> bool) option"
  effects :: "effect list"

text \<open>The status an upstream reports (\<open>status.Database\<close>).\<close>

record db_status =
  Running :: bool
  XLog :: string
  UserExists :: bool

text \<open>
  One pass of the loop of \<open>waitForUpstream\<close>: the answer of \<open>upstreamClient.Status()\<close>
  (\<open>None\<close> for an error), the milliseconds the call took, and the branch the \<open>select\<close>
  takes when the timer and the ticker can both be received from.
\<close>

record poll =
  status :: "db_status option"
  took :: nat
  timer_first :: bool

text \<open>
  The answers of the outside world during one operation. \<open>dials\<close> lists the connection
  attempts of \<open>start\<close>: the dial error, if any, and whether the \<open>OpTimeout\<close> timer had fired
  when the attempt failed. \<open>stop_ok n\<close> says whether the command is seen stopped within
  \<open>OpTimeout\<close> at the stop request that follows \<open>n\<close> earlier ones.
\<close>

record penv =
  writeConfig_err :: "string option"
  cmdStart_err :: "string option"
  dials :: "(string option \<times> bool) list"
  stop_ok :: "nat \<Rightarrow> bool"
  initPrimaryDB_err :: "string option"
  connectLocal_err :: "string option"
  upstream_polls :: "poll list"

definition NewProcess :: process where
  "NewProcess = \<lparr> configValue = None, configApplied = False, runningValue = False,
     syncedDownstreamValue = None, Singleton = False, syncWait = None, effects = [] \<rparr>"

definition emit :: "effect \<Rightarrow> process \<Rightarrow> process" where
  "emit e p = p\<lparr>effects := effects p @ [e]\<rparr>"

subsection \<open>Cancelling and starting the catch-up wait\<close>

definition cancelSyncWait :: "process \<Rightarrow> process" where
  "cancelSyncWait p =
     (case syncWait p of None \<Rightarrow> p
      | Some w \<Rightarrow> emit SyncWaitCancel (p\<lparr>syncWait := None\<rparr>))"

text \<open>
  \<open>waitForSync\<close> replaces \<open>cancelSyncWait\<close> and starts the goroutine; the goroutine itself is
  \<open>waitForSync_goroutine\<close> below.
\<close>

definition waitForSync :: "peer option \<Rightarrow> bool \<Rightarrow> process \<Rightarrow> process" where
  "waitForSync downstream enableWrites p =
     emit (SyncWaitStart downstream enableWrites) (p\<lparr>syncWait := Some (downstream, enableWrites)\<rparr>)"

subsection \<open>Starting and stopping the daemon\<close>

definition stop :: "penv \<Rightarrow> process \<Rightarrow> outcome \<times> process" where
  "stop env p =
     (let p1 = cancelSyncWait p;
          p2 = emit CmdStop p1
      in if stop_ok env (count_list (effects p1) CmdStop)
         then (Nil, p2\<lparr>runningValue := False\<rparr>)
         else (Err ''unable to kill process'', p2))"

fun start_wait :: "penv \<Rightarrow> (string option \<times> bool) list \<Rightarrow> process \<Rightarrow> outcome \<times> process" where
  "start_wait env [] p = (Pending, p)"
| "start_wait env ((None, fired) # ds) p = (Nil, p)"
| "start_wait env ((Some e, True) # ds) p = (Err e, snd (stop env p))"
| "start_wait env ((Some e, False) # ds) p = start_wait env ds p"

definition start :: "penv \<Rightarrow> process \<Rightarrow> outcome \<times> process" where
  "start env p =
     (case cmdStart_err env of
        Some e \<Rightarrow> (Err e, p)
      | None \<Rightarrow> start_wait env (dials env) (emit CmdStart (p\<lparr>runningValue := True\<rparr>)))"

subsection \<open>Waiting for the upstream\<close>

definition checkInterval :: nat where
  "checkInterval = 1000"

definition upstreamTimeout :: nat where
  "upstreamTimeout = 10000"

definition ready :: "db_status option \<Rightarrow> bool" where
  "ready s = (case s of None \<Rightarrow> False
     | Some d \<Rightarrow> Running d \<and> XLog d \<noteq> [] \<and> UserExists d)"

text \<open>The first tick of the ticker strictly after time \<open>t\<close> (ticks that found the channel full are dropped).\<close>

definition next_tick :: "nat \<Rightarrow> nat" where
  "next_tick t = (t div checkInterval + 1) * checkInterval"

text \<open>
  The loop of \<open>waitForUpstream\<close>, in milliseconds since the timer and the ticker were made.
  \<open>now\<close> is the time the pass begins and \<open>tick\<close> the time of the earliest tick not yet
  received. The result carries the time at which the function returns.
\<close>

fun waitForUpstream_loop :: "poll list \<Rightarrow> nat \<Rightarrow> nat \<Rightarrow> outcome \<times> nat" where
  "waitForUpstream_loop [] now tick = (Pending, now)"
| "waitForUpstream_loop (q # qs) now tick =
     (let t = now + took q in
      if ready (status q) then (Nil, t)
      else if upstreamTimeout \<le> t \<and> tick \<le> t then
        (if timer_first q then (Err ''upstream is offline'', t)
         else waitForUpstream_loop qs t (next_tick t))
      else if upstreamTimeout \<le> t then (Err ''upstream is offline'', t)
      else if tick \<le> t then waitForUpstream_loop qs t (next_tick t)
      else if tick < upstreamTimeout then waitForUpstream_loop qs tick (next_tick tick)
      else if upstreamTimeout < tick then (Err ''upstream is offline'', upstreamTimeout)
      else if timer_first q then (Err ''upstream is offline'', upstreamTimeout)
      else waitForUpstream_loop qs tick (next_tick tick))"

definition waitForUpstream :: "penv \<Rightarrow> peer \<Rightarrow> process \<Rightarrow> outcome \<times> process" where
  "waitForUpstream env upstream p = (fst (waitForUpstream_loop (upstream_polls env) 0 checkInterval), p)"

subsection \<open>Assuming a role\<close>

definition assumePrimary :: "penv \<Rightarrow> peer option \<Rightarrow> process \<Rightarrow> outcome \<times> process" where
  "assumePrimary env downstream p =
     (if runningValue p \<and> configValue p = None then (Panic ''nil pointer dereference'', p)
      else if runningValue p \<and> map_option Role (configValue p) = Some RoleSync
      then (Nil, waitForSync downstream True p)
      else if runningValue p then (Panic ''unexpected state running'', p)
      else (case writeConfig_err env of
          Some e \<Rightarrow> (Err e, emit WriteConfig p)
        | None \<Rightarrow>
           (case start env (emit WriteConfig p) of
              (Nil, p2) \<Rightarrow>
                (case initPrimaryDB_err env of
                   Some e \<Rightarrow> (Err e, snd (stop env (emit InitPrimaryDB p2)))
                 | None \<Rightarrow>
                    (Nil, (case downstream of
                             None \<Rightarrow> emit InitPrimaryDB p2
                           | Some d \<Rightarrow> waitForSync (Some d) True (emit InitPrimaryDB p2))))
            | (r, p2) \<Rightarrow> (r, p2))))"

definition assumeStandby :: "penv \<Rightarrow> peer option \<Rightarrow> peer option \<Rightarrow> process \<Rightarrow> outcome \<times> process" where
  "assumeStandby env upstream downstream p =
     (case upstream of
        None \<Rightarrow> (Panic ''nil pointer dereference'', p)
      | Some u \<Rightarrow>
         (case writeConfig_err env of
            Some e \<Rightarrow> (Err e, emit WriteConfig p)
          | None \<Rightarrow>
             (case (if runningValue p then stop env (emit WriteConfig p)
                    else waitForUpstream env u (emit WriteConfig p)) of
                (Nil, p2) \<Rightarrow>
                  (case start env p2 of
                     (Nil, p3) \<Rightarrow>
                       (case connectLocal_err env of
                          Some e \<Rightarrow> (Err e, emit ConnectLocal p3)
                        | None \<Rightarrow>
                           (Nil, (case downstream of
                                    None \<Rightarrow> emit ConnectLocal p3
                                  | Some d \<Rightarrow> waitForSync (Some d) False (emit ConnectLocal p3))))
                   | (r, p3) \<Rightarrow> (r, p3))
              | (r, p2) \<Rightarrow> (r, p2))))"

subsection \<open>Reconfigure, Start and Stop\<close>

text \<open>
  The closure inside \<open>reconfigure\<close>. It may assign to the captured \<open>config\<close>, so it returns
  that variable as well.
\<close>

definition same_upstream :: "config \<Rightarrow> config \<Rightarrow> bool option" where
  "same_upstream new old =
     (case Upstream new of None \<Rightarrow> None
      | Some u \<Rightarrow> (case Upstream old of None \<Rightarrow> None
          | Some v \<Rightarrow> Some (meta_get (Meta u) ''MONGODB_ID'' = meta_get (Meta v) ''MONGODB_ID'')))"

definition assume_role :: "penv \<Rightarrow> config option \<Rightarrow> process \<Rightarrow> outcome \<times> process \<times> config option" where
  "assume_role env config p =
     (let p1 = (cancelSyncWait p)\<lparr>syncedDownstreamValue := None\<rparr> in
      if runningValue p1 \<and> IsNewDownstream (configValue p1) config then
        (case config of
           None \<Rightarrow> (Panic ''nil pointer dereference'', p1, config)
         | Some c \<Rightarrow>
            (case Downstream c of
               None \<Rightarrow> (Panic ''nil pointer dereference'', p1, config)
             | Some d \<Rightarrow> (Nil, waitForSync (Some d) False p1, config)))
      else
        (case (if config = None then configValue p1 else config) of
           None \<Rightarrow> (Panic ''nil pointer dereference'', p1, None)
         | Some c \<Rightarrow>
            (if Role c = RolePrimary
             then (case assumePrimary env (Downstream c) p1 of (r, p2) \<Rightarrow> (r, p2, Some c))
             else (case assumeStandby env (Upstream c) (Downstream c) p1 of (r, p2) \<Rightarrow> (r, p2, Some c)))))"

definition reconfigure_closure :: "penv \<Rightarrow> config option \<Rightarrow> process \<Rightarrow> outcome \<times> process \<times> config option" where
  "reconfigure_closure env config p =
     (case config of
        None \<Rightarrow> assume_role env config p
      | Some c \<Rightarrow>
         (if Role c = RoleNone then (Nil, p, config)
          else (case configValue p of
             None \<Rightarrow> assume_role env config p
           | Some old \<Rightarrow>
              (if configApplied p \<and> Equal c old then (Nil, p, config)
               else if configApplied p \<and> runningValue p \<and> Role old = RoleAsync \<and> Role c = RoleSync
               then (case same_upstream c old of
                       None \<Rightarrow> (Panic ''nil pointer dereference'', p, config)
                     | Some True \<Rightarrow> (Nil, p, config)
                     | Some False \<Rightarrow> assume_role env config p)
               else assume_role env config p))))"

definition reconfigure :: "penv \<Rightarrow> config option \<Rightarrow> process \<Rightarrow> outcome \<times> process" where
  "reconfigure env config p =
     (case reconfigure_closure env config p of
        (Nil, p1, config1) \<Rightarrow> (Nil, p1\<lparr>configValue := config1, configApplied := True\<rparr>)
      | (r, p1, config1) \<Rightarrow> (r, p1))"

definition validate :: "process \<Rightarrow> config \<Rightarrow> string option" where
  "validate p c =
     (case Role c of
        RolePrimary \<Rightarrow> (if \<not> Singleton p \<and> Downstream c = None then Some ''missing downstream peer'' else None)
      | RoleSync \<Rightarrow> (if Upstream c = None then Some ''missing upstream peer'' else None)
      | RoleAsync \<Rightarrow> (if Upstream c = None then Some ''missing upstream peer'' else None)
      | RoleNone \<Rightarrow> None
      | RoleOther n \<Rightarrow> Some ''unknown role'')"

definition Reconfigure :: "penv \<Rightarrow> config \<Rightarrow> process \<Rightarrow> outcome \<times> process" where
  "Reconfigure env c p =
     (case validate p c of
        Some e \<Rightarrow> (Err e, p)
      | None \<Rightarrow>
         (if \<not> runningValue p then (Nil, p\<lparr>configValue := Some c, configApplied := False\<rparr>)
          else reconfigure env (Some c) p))"

definition Start :: "penv \<Rightarrow> process \<Rightarrow> outcome \<times> process" where
  "Start env p =
     (if runningValue p then (Err ''process already running'', p)
      else (case configValue p of
         None \<Rightarrow> (Err ''unconfigured process'', p)
       | Some c \<Rightarrow>
          (if Role c = RoleNone then (Err (''start attempted with role '' @ CHR 0x27 # ''none'' @ [CHR 0x27]), p)
           else reconfigure env None p)))"

definition Stop :: "penv \<Rightarrow> process \<Rightarrow> outcome \<times> process" where
  "Stop env p =
     (if \<not> runningValue p then (Err ''process already stopped'', p)
      else stop env p)"

subsection \<open>Reading log positions\<close>

text \<open>
  What the MongoDB driver answers to one call of \<open>nodeXLogPosition\<close>: the dial fails, the
  query for the newest oplog entry fails, or the query returns an entry with timestamp \<open>ts\<close>.
\<close>

datatype mgo_answer = DialError string | FindError string | Found nat

text \<open>
  The result of a call that returns \<open>(xlog.Position, error)\<close>: a position with a nil error,
  an error, or no return at all.
\<close>

datatype 'p xlog_read = XPos 'p | XErr string | XBlocked

text \<open>
  \<open>nodeXLogPosition\<close>: after a successful query the function receives from a nil channel,
  which blocks forever; the \<open>return\<close> after it is never reached.
\<close>

definition nodeXLogPosition :: "mgo_answer \<Rightarrow> string xlog_read" where
  "nodeXLogPosition a =
     (case a of
        DialError e \<Rightarrow> XErr e
      | FindError e \<Rightarrow> XErr (''find oplog.rs.ts error: '' @ e)
      | Found ts \<Rightarrow> XBlocked)"

definition XLogPosition :: "mgo_answer \<Rightarrow> string xlog_read" where
  "XLogPosition a = nodeXLogPosition a"

text \<open>
  The \<open>xlog.XLog\<close> of the appliance (appliance/mongodb/xlog is not among the sources):
  its zero position and its comparison, which returns \<open>(int, error)\<close>; \<open>None\<close> is an error.
\<close>

record 'p xlog =
  Zero :: 'p
  Compare :: "'p \<Rightarrow> 'p \<Rightarrow> int option"

subsection \<open>The catch-up wait\<close>

text \<open>
  One pass of the loop in the goroutine of \<open>waitForSync\<close>: whether \<open>stopCh\<close> is closed at the
  top of the pass, what the two position reads meet, the clock (in milliseconds) read after
  the reads (by \<open>time.Now\<close> in an error branch, by \<open>time.Since\<close> otherwise), the clock read
  when progress resets the start time, and whether \<open>stopCh\<close> is closed during the wait of
  \<open>checkInterval\<close> that ends the pass.
\<close>

record 'a pass =
  stop_top :: bool
  master :: 'a
  slave :: 'a
  clock :: int
  clock_reset :: int
  stop_wait :: bool

datatype wait_result = Canceled | CaughtUp | Stalled | Blocked | Waiting | Crashed

text \<open>
  The loop, for a reader \<open>rd\<close> of positions. \<open>CaughtUp\<close> is the pass that stores
  \<open>syncedDownstreamValue\<close> and breaks; \<open>Stalled\<close> the pass that logs "downstream unable to
  make forward progress" and returns; \<open>Waiting\<close> a loop that has used up the passes given.
\<close>

fun sync_loop :: "'p xlog \<Rightarrow> ('a \<Rightarrow> 'p xlog_read) \<Rightarrow> int \<Rightarrow> int \<Rightarrow> 'p \<Rightarrow> 'a pass list \<Rightarrow> wait_result" where
  "sync_loop xl rd replTimeout startTime prevSlaveXLog [] = Waiting"
| "sync_loop xl rd replTimeout startTime prevSlaveXLog (k # ks) =
     (if stop_top k then Canceled
      else (case rd (master k) of
          XBlocked \<Rightarrow> Blocked
        | XErr e \<Rightarrow>
            (if stop_wait k then Canceled
             else sync_loop xl rd replTimeout (clock k) prevSlaveXLog ks)
        | XPos masterXLog \<Rightarrow>
            (case rd (slave k) of
               XBlocked \<Rightarrow> Blocked
             | XErr e \<Rightarrow>
                 (if stop_wait k then Canceled
                  else sync_loop xl rd replTimeout (clock k) prevSlaveXLog ks)
             | XPos slaveXLog \<Rightarrow>
                 (let elapsedTime = clock k - startTime in
                  if Compare xl masterXLog slaveXLog = Some 0 then CaughtUp
                  else
                    (let startTime1 =
                           (if Compare xl prevSlaveXLog slaveXLog = Some (- 1)
                            then clock_reset k else startTime)
                     in if replTimeout < elapsedTime then Stalled
                        else if stop_wait k then Canceled
                        else sync_loop xl rd replTimeout startTime1 slaveXLog ks)))))"

text \<open>
  The goroutine started by \<open>waitForSync\<close> on process \<open>p\<close>, begun at time \<open>t0\<close>. It reads
  positions through \<open>XLogPosition\<close> and \<open>nodeXLogPosition\<close>. \<open>enableWrites\<close> is not used: the
  statements that would clear \<open>read_only\<close> are commented out in the source.
\<close>

definition DefaultReplTimeout :: int where
  "DefaultReplTimeout = 60000"

definition waitForSync_goroutine ::
  "string xlog \<Rightarrow> int \<Rightarrow> int \<Rightarrow> mgo_answer pass list \<Rightarrow> process \<Rightarrow> wait_result \<times> process" where
  "waitForSync_goroutine xl replTimeout t0 passes p =
     (case syncWait p of
        None \<Rightarrow> (Canceled, p)
      | Some (None, enableWrites) \<Rightarrow> (Crashed, p)
      | Some (Some downstream, enableWrites) \<Rightarrow>
          (case sync_loop xl nodeXLogPosition replTimeout t0 (Zero xl) passes of
             CaughtUp \<Rightarrow> (CaughtUp, p\<lparr>syncedDownstreamValue := Some downstream\<rparr>)
           | r \<Rightarrow> (r, p)))"

text \<open>\<open>isReadWrite\<close> and \<open>userExists\<close>: both panic on a running process.\<close>

definition isReadWrite :: "process \<Rightarrow> outcome \<times> bool" where
  "isReadWrite p =
     (if \<not> runningValue p then (Nil, False)
      else (Panic ''FIXME(benbjohnson): isReadWrite()'', False))"

definition userExists :: "process \<Rightarrow> outcome \<times> bool" where
  "userExists p =
     (if \<not> runningValue p then (Err ''mongod is not running'', False)
      else (Panic ''FIXME(benbjohnson): userExists()'', False))"

section \<open>The container backend (host/libvirt_lxc_backend.go)\<close>

subsection \<open>Strings\<close>

definition digit_char :: "nat \<Rightarrow> char" where
  "digit_char d = ''0123456789'' ! d"

fun digits :: "nat \<Rightarrow> string" where
  "digits n = (if n < 10 then [digit_char n] else digits (n div 10) @ [digit_char (n mod 10)])"

declare digits.simps [simp del]

text \<open>\<open>strconv.Itoa\<close>, and \<open>%d\<close> of \<open>fmt.Sprintf\<close>.\<close>

definition Itoa :: "int \<Rightarrow> string" where
  "Itoa i = (if i < 0 then CHR ''-'' # digits (nat (- i)) else digits (nat i))"



text \<open>\<open>%q\<close> of \<open>fmt\<close>, for strings without characters that need escaping.\<close>

definition quote :: "string \<Rightarrow> string" where
  "quote s = CHR 0x22 # s @ [CHR 0x22]"

text \<open>\<open>filepath.Join\<close> of two elements (empty elements are ignored; the cleaning of the result is left out).\<close>

definition path_join :: "string \<Rightarrow> string \<Rightarrow> string" where
  "path_join a b = (if a = [] then b else if b = [] then a else a @ CHR ''/'' # b)"

subsection \<open>Data\<close>

datatype job_status = StatusStarting | StatusRunning | StatusDone | StatusCrashed | StatusFailed

record port =
  Proto :: string
  Port :: int

record mount =
  Location :: string
  Target :: string
  Writeable :: bool

record volume_binding =
  VolumeID :: string
  VolTarget :: string
  VolWriteable :: bool

text \<open>
  A \<open>host.Job\<close> with the fields of \<open>Config\<close> that \<open>Run\<close> reads. A Go map is an association
  list read with \<open>map_of\<close> (the first pair of a key counts); \<open>Env = None\<close> is the nil map.
\<close>

record job =
  ID :: string
  Partition :: string
  HostNetwork :: bool
  Env :: "(string \<times> string) list option"
  Ports :: "port list"
  Mounts :: "mount list"
  Volumes :: "volume_binding list"
  Cmd :: "string list"
  Entrypoint :: "string list"
  WorkingDir :: string
  Uid :: int

text \<open>
  Modelled from the spec: the entry of the host state for a job (host/state.go is not among
  the sources): its status, the container IP and ID, the exit status or error, and the
  force-stop mark.
\<close>

record active_job =
  Status :: job_status
  ForceStop :: bool
  ContainerIP :: "string option"
  ContainerID :: "string option"
  ExitStatus :: "int option"
  JobError :: "string option"

record container =
  RootPath :: string
  IP :: "string option"
  cjob :: job

datatype task = CleanupTask container | WatchTask container

text \<open>The \<open>containerinit.Config\<close> written to \<open>.containerconfig\<close>.\<close>

record init_config =
  cfg_Env :: "(string \<times> string) list"
  cfg_Ports :: "port list"
  cfg_Args :: "string list"
  cfg_WorkDir :: string
  cfg_User :: string
  cfg_IP :: string
  cfg_Gateway :: string

record image_config =
  img_Entrypoint :: "string list"
  img_Cmd :: "string list"
  img_WorkingDir :: string
  img_User :: string

text \<open>
  The backend together with what it acts on: the registries, the two channels (\<open>True\<close> once
  closed), whether \<open>l.state.mtx\<close> is held, the addresses handed out by the IP allocator, the
  bind mounts in place (by mount point), the config files written, and the goroutines
  started and not yet run.
\<close>

record backend =
  containers :: "(string \<times> container) list"
  jobs :: "(string \<times> active_job) list"
  state_mtx :: bool
  partitionCGroups :: "(string \<times> int) list"
  defaultEnv :: "(string \<times> string) list"
  discoverdConfigured :: bool
  networkConfigured :: bool
  bridgeNet :: "string option"
  bridgeAddr :: string
  ipalloc :: "string list"
  mount_table :: "string list"
  logStreams :: "string list"
  written :: "(string \<times> init_config) list"
  goroutines :: "task list"

definition NewLibvirtLXCBackend :: "(string \<times> active_job) list \<Rightarrow> (string \<times> int) list \<Rightarrow> backend" where
  "NewLibvirtLXCBackend js parts =
     \<lparr> containers = [], jobs = js, state_mtx = False, partitionCGroups = parts,
       defaultEnv = [], discoverdConfigured = False, networkConfigured = False,
       bridgeNet = None, bridgeAddr = [], ipalloc = [], mount_table = [],
       logStreams = [], written = [], goroutines = [] \<rparr>"

definition map_del :: "'k \<Rightarrow> ('k \<times> 'v) list \<Rightarrow> ('k \<times> 'v) list" where
  "map_del k m = filter (\<lambda>kv. fst kv \<noteq> k) m"

definition map_put :: "'k \<Rightarrow> 'v \<Rightarrow> ('k \<times> 'v) list \<Rightarrow> ('k \<times> 'v) list" where
  "map_put k v m = (k, v) # map_del k m"

subsection \<open>The host state\<close>

text \<open>
  Modelled from the spec: the operations of the host state used by the backend. A terminal
  status is written once; later writes are dropped. The locking of these operations is not
  modelled.
\<close>

definition terminal :: "job_status \<Rightarrow> bool" where
  "terminal s = (s = StatusDone \<or> s = StatusCrashed \<or> s = StatusFailed)"

definition GetJob :: "string \<Rightarrow> backend \<Rightarrow> active_job option" where
  "GetJob jid b = map_of (jobs b) jid"

definition SetStatusFailed :: "string \<Rightarrow> string \<Rightarrow> backend \<Rightarrow> backend" where
  "SetStatusFailed jid e b =
     (case GetJob jid b of
        None \<Rightarrow> b
      | Some j \<Rightarrow> if terminal (Status j) then b
                  else b\<lparr>jobs := map_put jid (j\<lparr>Status := StatusFailed, JobError := Some e\<rparr>) (jobs b)\<rparr>)"

definition SetStatusDone :: "string \<Rightarrow> int \<Rightarrow> backend \<Rightarrow> backend" where
  "SetStatusDone jid code b =
     (case GetJob jid b of
        None \<Rightarrow> b
      | Some j \<Rightarrow> if terminal (Status j) then b
                  else b\<lparr>jobs := map_put jid (j\<lparr>Status := StatusDone, ExitStatus := Some code\<rparr>) (jobs b)\<rparr>)"

definition SetContainerIP :: "string \<Rightarrow> string \<Rightarrow> backend \<Rightarrow> backend" where
  "SetContainerIP jid ip b =
     (case GetJob jid b of
        None \<Rightarrow> b
      | Some j \<Rightarrow> b\<lparr>jobs := map_put jid (j\<lparr>ContainerIP := Some ip\<rparr>) (jobs b)\<rparr>)"

definition SetContainerID :: "string \<Rightarrow> string \<Rightarrow> backend \<Rightarrow> backend" where
  "SetContainerID jid uuid b =
     (case GetJob jid b of
        None \<Rightarrow> b
      | Some j \<Rightarrow> b\<lparr>jobs := map_put jid (j\<lparr>ContainerID := Some uuid\<rparr>) (jobs b)\<rparr>)"

subsection \<open>SetDefaultEnv\<close>

definition SetDefaultEnv :: "string \<Rightarrow> string \<Rightarrow> backend \<Rightarrow> outcome \<times> backend" where
  "SetDefaultEnv k v b =
     (let b1 = b\<lparr>defaultEnv := (k, v) # defaultEnv b\<rparr> in
      if k = ''DISCOVERD'' then
        (if discoverdConfigured b1 then (Panic ''close of closed channel'', b1)
         else (Nil, b1\<lparr>discoverdConfigured := True\<rparr>))
      else (Nil, b1))"

subsection \<open>Mounts and cleanup\<close>

text \<open>
  What \<open>bindMount\<close> meets: success, a failure before the bind mount is in place, or a failure
  of the second \<open>mount\<close> call (making it private), which leaves the bind mount in place.
\<close>

datatype bind_answer = BindOk | BindFails string | BindPrivateFails string

definition bindMount :: "(string \<Rightarrow> bind_answer) \<Rightarrow> string \<Rightarrow> backend \<Rightarrow> string option \<times> backend" where
  "bindMount ans dest b =
     (case ans dest of
        BindOk \<Rightarrow> (None, b\<lparr>mount_table := dest # mount_table b\<rparr>)
      | BindFails e \<Rightarrow> (Some e, b)
      | BindPrivateFails e \<Rightarrow> (Some e, b\<lparr>mount_table := dest # mount_table b\<rparr>))"

text \<open>The paths \<open>unbindMounts\<close> unmounts, in order.\<close>

definition unbind_paths :: "container \<Rightarrow> string list" where
  "unbind_paths c =
     [path_join (RootPath c) ''.containerinit'', path_join (RootPath c) ''etc/resolv.conf'']
     @ map (\<lambda>m. path_join (RootPath c) (Location m)) (Mounts (cjob c))
     @ map (\<lambda>v. path_join (RootPath c) (VolTarget v)) (Volumes (cjob c))"

text \<open>
  \<open>syscall.Unmount\<close> of a path takes one mount off that mount point; on a path that is not
  mounted it fails, and \<open>unbindMounts\<close> only logs the error.
\<close>

definition unbindMounts :: "container \<Rightarrow> backend \<Rightarrow> backend" where
  "unbindMounts c b = b\<lparr>mount_table := foldl (\<lambda>t p. remove1 p t) (mount_table b) (unbind_paths c)\<rparr>"

definition ReleaseIP :: "string option \<Rightarrow> backend \<Rightarrow> backend" where
  "ReleaseIP ip b = (case ip of None \<Rightarrow> b | Some a \<Rightarrow> b\<lparr>ipalloc := remove1 a (ipalloc b)\<rparr>)"

definition cleanup :: "container \<Rightarrow> backend \<Rightarrow> backend" where
  "cleanup c b =
     (let b1 = b\<lparr>logStreams := removeAll (ID (cjob c)) (logStreams b)\<rparr>;
          b2 = unbindMounts c b1
      in if \<not> HostNetwork (cjob c) \<and> bridgeNet b2 \<noteq> None then ReleaseIP (IP c) b2 else b2)"

subsection \<open>Run\<close>

text \<open>
  The answers of the outside world to one call of \<open>Run\<close>: the IP allocator (an error or an
  address), the steps that only fail or succeed (\<open>None\<close> is success), the image config read,
  the attempts of \<open>Checkout\<close> made within the second the retry loop allows (an error or the
  root path), \<open>bindMount\<close> by destination, \<open>os.MkdirAll\<close> by path, and the volume manager
  (\<open>None\<close> for a volume that does not exist, else its location).
\<close>

record renv =
  requestIP :: "string + string"
  resolveURI_err :: "string option"
  pull_err :: "string option"
  imageConfig :: "string + image_config"
  checkout_tries :: "(string + string) list"
  bind_answers :: "string \<Rightarrow> bind_answer"
  mkdir_err :: "string \<Rightarrow> string option"
  writeHostname_err :: "string option"
  volume_location :: "string \<Rightarrow> string option"
  writeContainerConfig_err :: "string option"
  define_err :: "string option"
  create_err :: "string option"
  uuid :: "string + string"
  xmldesc_err :: "string option"
  unmarshal_err :: "string option"

definition defaultPartition :: string where
  "defaultPartition = ''user''"

definition HasSuffix :: "string \<Rightarrow> string \<Rightarrow> bool" where
  "HasSuffix s suf = (length suf \<le> length s \<and> drop (length s - length suf) s = suf)"

text \<open>
  The retry loop around \<open>Checkout\<close>: it ends at the first attempt that succeeds or fails with
  something other than "invalid argument", or when the second is over. The result is the
  value of \<open>err\<close> and of \<open>rootPath\<close> after the loop.
\<close>

fun checkout_loop :: "(string + string) list \<Rightarrow> string option \<Rightarrow> string \<Rightarrow> string option \<times> string" where
  "checkout_loop [] err rootPath = (err, rootPath)"
| "checkout_loop (Inr path # ts) err rootPath = (None, path)"
| "checkout_loop (Inl e # ts) err rootPath =
     (if HasSuffix e ''invalid argument'' then checkout_loop ts (Some e) [] else (Some e, []))"

definition empty_image :: image_config where
  "empty_image = \<lparr> img_Entrypoint = [], img_Cmd = [], img_WorkingDir = [], img_User = [] \<rparr>"

definition image_phase :: "renv \<Rightarrow> string option \<times> string \<times> image_config" where
  "image_phase env =
     (case resolveURI_err env of
        Some e \<Rightarrow> (Some e, [], empty_image)
      | None \<Rightarrow>
         (case pull_err env of
            Some e \<Rightarrow> (Some e, [], empty_image)
          | None \<Rightarrow>
             (case imageConfig env of
                Inl e \<Rightarrow> (Some e, [], empty_image)
              | Inr img \<Rightarrow>
                 (case checkout_loop (checkout_tries env) None [] of
                    (err, rootPath) \<Rightarrow> (err, rootPath, img)))))"

text \<open>Sequencing of steps that return an error: the first error ends the sequence.\<close>

definition andThen ::
  "string option \<times> backend \<Rightarrow> (backend \<Rightarrow> string option \<times> backend) \<Rightarrow> string option \<times> backend" where
  "andThen r f = (case r of (None, b) \<Rightarrow> f b | (Some e, b) \<Rightarrow> (Some e, b))"

fun mount_all :: "renv \<Rightarrow> string \<Rightarrow> mount list \<Rightarrow> backend \<Rightarrow> string option \<times> backend" where
  "mount_all env root [] b = (None, b)"
| "mount_all env root (m # ms) b =
     (case mkdir_err env (path_join root (Location m)) of
        Some e \<Rightarrow> (Some e, b)
      | None \<Rightarrow>
         (if Target m = [] then (Some ''host: invalid empty mount target'', b)
          else andThen (bindMount (bind_answers env) (path_join root (Location m)) b)
                 (mount_all env root ms)))"

fun volume_all :: "renv \<Rightarrow> string \<Rightarrow> string \<Rightarrow> volume_binding list \<Rightarrow> backend \<Rightarrow> string option \<times> backend" where
  "volume_all env jid root [] b = (None, b)"
| "volume_all env jid root (v # vs) b =
     (case volume_location env (VolumeID v) of
        None \<Rightarrow> (Some (''job '' @ jid @ '' required volume '' @ VolumeID v
                        @ '', but that volume does not exist''), b)
      | Some loc \<Rightarrow>
         (case mkdir_err env (path_join root (VolTarget v)) of
            Some e \<Rightarrow> (Some e, b)
          | None \<Rightarrow>
             andThen (bindMount (bind_answers env) (path_join root (VolTarget v)) b)
               (volume_all env jid root vs)))"

definition mount_phase :: "renv \<Rightarrow> container \<Rightarrow> backend \<Rightarrow> string option \<times> backend" where
  "mount_phase env c b =
     andThen (andThen (andThen (andThen (andThen (andThen
       (bindMount (bind_answers env) (path_join (RootPath c) ''.containerinit'') b)
       (\<lambda>b. (mkdir_err env (path_join (RootPath c) ''etc''), b)))
       (bindMount (bind_answers env) (path_join (RootPath c) ''etc/resolv.conf'')))
       (\<lambda>b. (writeHostname_err env, b)))
       (\<lambda>b. (mkdir_err env (path_join (RootPath c) ''.container-shared''), b)))
       (mount_all env (RootPath c) (Mounts (cjob c))))
       (volume_all env (ID (cjob c)) (RootPath c) (Volumes (cjob c)))"

text \<open>
  The loop over \<open>job.Config.Ports\<close>, from index \<open>i\<close>: \<open>assigned\<close> is the port after the
  pass for index \<open>i\<close>, \<open>port_env\<close> the env after it. The loop changes the ports and the env
  in place, so on an error the result still carries what the earlier passes wrote.
\<close>

definition assigned :: "nat \<Rightarrow> port \<Rightarrow> port" where
  "assigned i p = (if Port p = 0 then p\<lparr>Port := 5000 + int i\<rparr> else p)"

definition port_env :: "nat \<Rightarrow> port \<Rightarrow> (string \<times> string) list \<Rightarrow> (string \<times> string) list" where
  "port_env i p env =
     (''PORT_'' @ Itoa (int i), Itoa (Port p))
       # (if i = 0 then (''PORT'', Itoa (Port p)) # env else env)"

fun assignPorts :: "nat \<Rightarrow> port list \<Rightarrow> (string \<times> string) list \<Rightarrow> string option \<times> port list \<times> (string \<times> string) list" where
  "assignPorts i [] env = (None, [], env)"
| "assignPorts i (p # ps) env =
     (if Proto p \<noteq> ''tcp'' \<and> Proto p \<noteq> ''udp''
      then (Some (''unknown port proto '' @ quote (Proto p)), p # ps, env)
      else
        (case assignPorts (Suc i) ps (port_env i (assigned i p) env) of
           (err, ps1, env3) \<Rightarrow> (err, assigned i p # ps1, env3)))"

definition ip_string :: "string option \<Rightarrow> string" where
  "ip_string ip = (case ip of None \<Rightarrow> ''<nil>'' | Some a \<Rightarrow> a)"

definition hostname_of :: "string \<Rightarrow> string" where
  "hostname_of jid =
     take 64 (if CHR ''-'' \<in> set jid then tl (dropWhile (\<lambda>ch. ch \<noteq> CHR ''-'') jid) else jid)"

definition baseline_env :: "(string \<times> string) list" where
  "baseline_env =
     [(''PATH'', ''/usr/local/sbin:/usr/local/bin:/usr/sbin:/usr/bin:/sbin:/bin''),
      (''TERM'', ''xterm''), (''HOME'', ''/'')]"

text \<open>
  \<open>writeContainerConfig\<close> copies the maps into \<open>c.Env\<close> in order, so a later map wins: in the
  association list the later maps come first.
\<close>

definition merge_env :: "(string \<times> string) list list \<Rightarrow> (string \<times> string) list" where
  "merge_env envs = concat (rev envs)"

definition job_env :: "job \<Rightarrow> (string \<times> string) list" where
  "job_env j = (case Env j of None \<Rightarrow> [] | Some m \<Rightarrow> m)"

definition container_config :: "job \<Rightarrow> image_config \<Rightarrow> container \<Rightarrow> backend \<Rightarrow> init_config" where
  "container_config j img c b =
     \<lparr> cfg_Env = merge_env [baseline_env, defaultEnv b, job_env j, [(''HOSTNAME'', hostname_of (ID j))]],
       cfg_Ports = Ports j,
       cfg_Args = (if Entrypoint j \<noteq> [] then Entrypoint j @ Cmd j
                   else if Cmd j \<noteq> [] then img_Entrypoint img @ Cmd j
                   else img_Entrypoint img @ img_Cmd img),
       cfg_WorkDir = (if WorkingDir j = [] then img_WorkingDir img else WorkingDir j),
       cfg_User = (if 0 < Uid j then Itoa (Uid j) else []),
       cfg_IP = (if HostNetwork j then [] else ip_string (IP c) @ ''/24''),
       cfg_Gateway = (if HostNetwork j then [] else bridgeAddr b) \<rparr>"

text \<open>
  The two deferred functions of \<open>Run\<close> on an error return after the second one is registered:
  first \<open>go container.cleanup()\<close>, which only starts the goroutine, then
  \<open>SetStatusFailed\<close>.
\<close>

definition fail :: "container \<Rightarrow> string \<Rightarrow> backend \<Rightarrow> outcome \<times> backend" where
  "fail c e b =
     (Err e, SetStatusFailed (ID (cjob c)) e (b\<lparr>goroutines := goroutines b @ [CleanupTask c]\<rparr>))"

definition domain_phase :: "renv \<Rightarrow> container \<Rightarrow> backend \<Rightarrow> outcome \<times> backend" where
  "domain_phase env c b =
     (case define_err env of
        Some e \<Rightarrow> fail c e b
      | None \<Rightarrow>
         (case create_err env of
            Some e \<Rightarrow> fail c e b
          | None \<Rightarrow>
             (case uuid env of
                Inl e \<Rightarrow> fail c e b
              | Inr u \<Rightarrow>
                 (case xmldesc_err env of
                    Some e \<Rightarrow> fail c e (SetContainerID (ID (cjob c)) u b)
                  | None \<Rightarrow>
                     (case unmarshal_err env of
                        Some e \<Rightarrow> fail c e (SetContainerID (ID (cjob c)) u b)
                      | None \<Rightarrow>
                         (Nil, (SetContainerID (ID (cjob c)) u b)
                                 \<lparr>goroutines := goroutines b @ [WatchTask c]\<rparr>))))))"

text \<open>\<open>Run\<close> from the second \<open>defer\<close> on, that is, after the IP allocation.\<close>

definition Run_allocated :: "renv \<Rightarrow> container \<Rightarrow> backend \<Rightarrow> outcome \<times> backend" where
  "Run_allocated env c b =
     (case image_phase env of
        (Some e, rootPath, img) \<Rightarrow> fail c e b
      | (None, rootPath, img) \<Rightarrow>
         (let c1 = c\<lparr>RootPath := rootPath\<rparr> in
          case mount_phase env c1 b of
            (Some e, b1) \<Rightarrow> fail c1 e b1
          | (None, b1) \<Rightarrow>
             (case assignPorts 0 (Ports (cjob c1)) (job_env (cjob c1)) of
                (Some e, ps, ev) \<Rightarrow>
                  fail (c1\<lparr>cjob := (cjob c1)\<lparr>Ports := ps, Env := Some ev\<rparr>\<rparr>) e (b1\<lparr>state_mtx := True\<rparr>)
              | (None, ps, ev) \<Rightarrow>
                 (let ev1 = (if HostNetwork (cjob c1) then ev
                             else (''EXTERNAL_IP'', ip_string (IP c1)) # ev);
                      j2 = (cjob c1)\<lparr>Ports := ps, Env := Some ev1\<rparr>;
                      c2 = c1\<lparr>cjob := j2\<rparr>
                  in case writeContainerConfig_err env of
                       Some e \<Rightarrow> fail c2 e b1
                     | None \<Rightarrow>
                        domain_phase env c2
                          (b1\<lparr>written := (path_join rootPath ''.containerconfig'',
                                          container_config j2 img c2 b1) # written b1\<rparr>)))))"

definition Run :: "renv \<Rightarrow> job \<Rightarrow> backend \<Rightarrow> outcome \<times> backend" where
  "Run env job0 b =
     (case GetJob (ID job0) b of
        None \<Rightarrow> (Panic ''nil pointer dereference'', b)
      | Some aj \<Rightarrow>
         (if ForceStop aj then (Nil, b)
          else
            (let j1 = (if Partition job0 = [] then job0\<lparr>Partition := defaultPartition\<rparr> else job0) in
             if map_of (partitionCGroups b) (Partition j1) = None
             then (Err (''host: invalid job partition '' @ quote (Partition j1)),
                   SetStatusFailed (ID j1) (''host: invalid job partition '' @ quote (Partition j1)) b)
             else if \<not> HostNetwork j1 \<and> \<not> networkConfigured b then (Pending, b)
             else if map_of (job_env j1) ''DISCOVERD'' = None \<and> \<not> discoverdConfigured b then (Pending, b)
             else if HostNetwork j1
             then Run_allocated env \<lparr> RootPath = [], IP = None, cjob = j1 \<rparr> b
             else
               (case requestIP env of
                  Inl e \<Rightarrow> (Err e, SetStatusFailed (ID j1) e b)
                | Inr ip \<Rightarrow>
                    Run_allocated env \<lparr> RootPath = [], IP = Some ip, cjob = j1 \<rparr>
                      (SetContainerIP (ID j1) ip (b\<lparr>ipalloc := ip # ipalloc b\<rparr>))))))"


subsection \<open>Stop and Cleanup\<close>

text \<open>The result of an RPC to the init of the container; \<open>RpcShutdown\<close> is \<open>rpcplus.ErrShutdown\<close>.\<close>

datatype rpc_result = RpcOk | RpcShutdown | RpcError string

text \<open>The last thing the watcher of a container sees before it returns.\<close>

datatype last_change = Exited int | FailedToStart | ChangeError string | StreamClosed

text \<open>
  The end of \<open>watch\<close>: the status is recorded, then the deferred function removes the
  container from the registry, runs \<open>cleanup\<close> and closes \<open>done\<close>.
\<close>

definition watch_finish :: "last_change \<Rightarrow> container \<Rightarrow> backend \<Rightarrow> backend" where
  "watch_finish ch c b =
     (let jid = ID (cjob c);
          b1 = (case ch of
                  Exited code \<Rightarrow> SetStatusDone jid code b
                | FailedToStart \<Rightarrow> SetStatusFailed jid ''container failed to start'' b
                | ChangeError e \<Rightarrow> SetStatusFailed jid e b
                | StreamClosed \<Rightarrow> SetStatusFailed jid ''unknown failure'' b)
      in cleanup c (b1\<lparr>containers := map_del jid (containers b1)\<rparr>))"

text \<open>
  The answers to one \<open>Stop\<close>: the result of sending \<open>SIGTERM\<close>, whether the watcher ends within
  the ten seconds of \<open>WaitStop\<close> (and on which change), and the result of sending \<open>SIGKILL\<close>.
\<close>

record stop_env =
  sigterm :: rpc_result
  watcher_ends :: "last_change option"
  sigkill :: rpc_result

text \<open>\<open>libvirtContainer.Stop\<close>, with \<open>WaitStop\<close> inlined; the result is the error it returns.\<close>

definition container_Stop :: "stop_env \<Rightarrow> container \<Rightarrow> backend \<Rightarrow> (rpc_result + string) \<times> backend" where
  "container_Stop env c b =
     (case sigterm env of
        RpcShutdown \<Rightarrow> (Inl RpcShutdown, b)
      | RpcError e \<Rightarrow> (Inl (RpcError e), b)
      | RpcOk \<Rightarrow>
         (case GetJob (ID (cjob c)) b of
            None \<Rightarrow> (Inr ''nil pointer dereference'', b)
          | Some j \<Rightarrow>
             (if Status j = StatusDone \<or> Status j = StatusFailed then (Inl RpcOk, b)
              else (case watcher_ends env of
                      Some ch \<Rightarrow> (Inl RpcOk, watch_finish ch c b)
                    | None \<Rightarrow> (Inl (sigkill env), b)))))"

definition getContainer :: "string \<Rightarrow> backend \<Rightarrow> string + container" where
  "getContainer jid b =
     (case map_of (containers b) jid of
        None \<Rightarrow> Inl ''libvirt: unknown container''
      | Some c \<Rightarrow> Inr c)"

text \<open>\<open>LibvirtLXCBackend.Stop\<close>.\<close>

definition Stop_job :: "stop_env \<Rightarrow> string \<Rightarrow> backend \<Rightarrow> outcome \<times> backend" where
  "Stop_job env jid b =
     (case getContainer jid b of
        Inl e \<Rightarrow> (Err e, b)
      | Inr c \<Rightarrow>
         (case container_Stop env c b of
            (Inl RpcOk, b1) \<Rightarrow> (Nil, b1)
          | (Inl RpcShutdown, b1) \<Rightarrow> (Nil, b1)
          | (Inl (RpcError e), b1) \<Rightarrow> (Err e, b1)
          | (Inr pmsg, b1) \<Rightarrow> (Panic pmsg, b1)))"

text \<open>
  \<open>Cleanup\<close>. The goroutines run \<open>Stop\<close> concurrently; \<open>finish jid\<close> is the time at which the
  one for \<open>jid\<close> sends its result, and the results are received in that order. The loop that
  receives them keeps the error received last.
\<close>

fun stop_all :: "(string \<Rightarrow> stop_env) \<Rightarrow> string list \<Rightarrow> backend \<Rightarrow> outcome list \<times> backend" where
  "stop_all envs [] b = ([], b)"
| "stop_all envs (jid # ids) b =
     (case Stop_job (envs jid) jid b of
        (r, b1) \<Rightarrow> (case stop_all envs ids b1 of (rs, b2) \<Rightarrow> (r # rs, b2)))"

fun collect :: "outcome \<Rightarrow> outcome list \<Rightarrow> outcome" where
  "collect err [] = err"
| "collect err (stopErr # rs) = collect (if stopErr \<noteq> Nil then stopErr else err) rs"

definition cleanup_ids :: "string list \<Rightarrow> backend \<Rightarrow> string list" where
  "cleanup_ids except b = filter (\<lambda>jid. jid \<notin> set except) (map fst (containers b))"

definition Cleanup :: "string list \<Rightarrow> (string \<Rightarrow> nat) \<Rightarrow> (string \<Rightarrow> stop_env) \<Rightarrow> backend \<Rightarrow> outcome \<times> backend" where
  "Cleanup except finish envs b =
     (case stop_all envs (sort_key finish (cleanup_ids except b)) b of
        (rs, b1) \<Rightarrow> (collect Nil rs, b1))"

section \<open>Inputs used in the worked cases\<close>

definition quiet_env :: penv where
  "quiet_env = \<lparr> writeConfig_err = None, cmdStart_err = None, dials = [(None, False)],
     stop_ok = (\<lambda>n. True), initPrimaryDB_err = None, connectLocal_err = None,
     upstream_polls = [] \<rparr>"

definition peerU :: peer where
  "peerU = \<lparr> InstID = ''u'', Addr = ''10.0.0.1:27017'', Meta = [(''MONGODB_ID'', ''1'')] \<rparr>"

definition peerD :: peer where
  "peerD = \<lparr> InstID = ''d'', Addr = ''10.0.0.3:27017'', Meta = [(''MONGODB_ID'', ''3'')] \<rparr>"

definition cfg_sync :: config where
  "cfg_sync = \<lparr> Role = RoleSync, Upstream = Some peerU, Downstream = Some peerD \<rparr>"

definition cfg_async :: config where
  "cfg_async = \<lparr> Role = RoleAsync, Upstream = Some peerU, Downstream = None \<rparr>"

definition cfg_primary :: config where
  "cfg_primary = \<lparr> Role = RolePrimary, Upstream = None, Downstream = Some peerD \<rparr>"

definition cfg_none :: config where
  "cfg_none = \<lparr> Role = RoleNone, Upstream = None, Downstream = None \<rparr>"

text \<open>A process running with config \<open>c\<close> applied.\<close>

definition running_as :: "config \<Rightarrow> process" where
  "running_as c = NewProcess\<lparr> configValue := Some c, configApplied := True, runningValue := True \<rparr>"



text \<open>A log whose positions are compared by length first, then as strings.\<close>

definition example_xlog :: "string xlog" where
  "example_xlog = \<lparr> Zero = [],
     Compare = (\<lambda>a b. if a = b then Some 0 else if length a < length b then Some (- 1) else Some 1) \<rparr>"

text \<open>
  A pass of the catch-up loop in which both queries for the newest oplog entry succeed,
  read 62 seconds after the start, and nothing cancels the wait.
\<close>

definition late_pass :: "mgo_answer pass" where
  "late_pass = \<lparr> stop_top = False, master = Found 9, slave = Found 5,
                  clock = 62000, clock_reset = 62000, stop_wait = False \<rparr>"

definition equal_pass :: "mgo_answer pass" where
  "equal_pass = \<lparr> stop_top = False, master = Found 7, slave = Found 7,
                   clock = 5000, clock_reset = 5000, stop_wait = False \<rparr>"

text \<open>The process after the promotion of a running sync to primary.\<close>

definition promoted :: process where
  "promoted = (running_as cfg_primary)\<lparr> syncWait := Some (Some peerD, True),
                effects := [SyncWaitStart (Some peerD) True] \<rparr>"

text \<open>
  A reader that does what \<open>nodeXLogPosition\<close> would do without the receive from the nil
  channel: it returns the timestamp read.
\<close>

definition returning_reader :: "mgo_answer \<Rightarrow> string xlog_read" where
  "returning_reader a =
     (case a of
        DialError e \<Rightarrow> XErr e
      | FindError e \<Rightarrow> XErr (''find oplog.rs.ts error: '' @ e)
      | Found ts \<Rightarrow> XPos (digits ts))"

text \<open>A job with two ports left to the backend, on a host whose network and discoverd are configured.\<close>

definition web_job :: job where
  "web_job = \<lparr> ID = ''host-web1'', Partition = [], HostNetwork = False, Env = None,
     Ports = [\<lparr> Proto = ''tcp'', Port = 0 \<rparr>, \<lparr> Proto = ''udp'', Port = 0 \<rparr>],
     Mounts = [], Volumes = [], Cmd = [''run''], Entrypoint = [], WorkingDir = [], Uid = 0 \<rparr>"

definition starting :: active_job where
  "starting = \<lparr> Status = StatusStarting, ForceStop = False, ContainerIP = None,
     ContainerID = None, ExitStatus = None, JobError = None \<rparr>"

definition ready_backend :: backend where
  "ready_backend = (NewLibvirtLXCBackend [(''host-web1'', starting)] [(''user'', 1024)])
     \<lparr> discoverdConfigured := True, networkConfigured := True,
       bridgeNet := Some ''10.0.0.0/24'', bridgeAddr := ''10.0.0.1'', ipalloc := [''10.0.0.1''] \<rparr>"





text \<open>The backend with the container of that job registered and running.\<close>

definition web_container :: container where
  "web_container = \<lparr> RootPath = ''/root1'', IP = Some ''10.0.0.2'', cjob = web_job \<rparr>"

definition running_backend :: backend where
  "running_backend = ready_backend
     \<lparr> containers := [(''host-web1'', web_container)],
       jobs := [(''host-web1'', starting\<lparr> Status := StatusRunning \<rparr>)],
       ipalloc := [''10.0.0.2'', ''10.0.0.1''] \<rparr>"

text \<open>A stop in which the signal is delivered and the container exits with status 0 in time.\<close>

definition clean_stop :: stop_env where
  "clean_stop = \<lparr> sigterm = RpcOk, watcher_ends = Some (Exited 0), sigkill = RpcOk \<rparr>"

text \<open>Two registered containers whose init answers every signal with an error of its own.\<close>

definition job_named :: "string \<Rightarrow> job" where
  "job_named n = web_job\<lparr> ID := n \<rparr>"

definition two_backend :: backend where
  "two_backend = ready_backend
     \<lparr> containers := [(''a'', web_container\<lparr> cjob := job_named ''a'' \<rparr>),
                       (''b'', web_container\<lparr> cjob := job_named ''b'' \<rparr>)],
       jobs := [(''a'', starting\<lparr> Status := StatusRunning \<rparr>),
                (''b'', starting\<lparr> Status := StatusRunning \<rparr>)] \<rparr>"

definition failing_stops :: "string \<Rightarrow> stop_env" where
  "failing_stops n = \<lparr> sigterm = RpcError (''no route to '' @ n), watcher_ends = None, sigkill = RpcOk \<rparr>"

definition a_then_b :: "string \<Rightarrow> nat" where
  "a_then_b n = (if n = ''a'' then 1 else 2)"

section \<open>Notions used in the statements and proofs\<close>




section \<open>Properties of the replication process supervisor\<close>

subsection \<open>Start and Stop\<close>

text \<open>
  Claim C9. \<open>Process.Start\<close> returns an error and leaves the process as it is when the
  process is already running, when no config has been stored, and when the stored config
  has role none; \<open>Process.Stop\<close> returns an error, again without a change, when the process
  is already stopped.
\<close>

theorem Start_Stop_errors:
  "(runningValue p \<longrightarrow> Start env p = (Err ''process already running'', p)) \<and>
   (\<not> runningValue p \<and> configValue p = None \<longrightarrow> Start env p = (Err ''unconfigured process'', p)) \<and>
   (\<not> runningValue p \<and> map_option Role (configValue p) = Some RoleNone \<longrightarrow>
      Start env p = (Err (''start attempted with role '' @ CHR 0x27 # ''none'' @ [CHR 0x27]), p)) \<and>
   (\<not> runningValue p \<longrightarrow> Stop env p = (Err ''process already stopped'', p))"
  by (auto simp: Start_def Stop_def split: option.splits)

theorem Start_Stop_errors_witness:
  "Start quiet_env (running_as cfg_sync) = (Err ''process already running'', running_as cfg_sync) \<and>
   Start quiet_env NewProcess = (Err ''unconfigured process'', NewProcess) \<and>
   Start quiet_env (NewProcess\<lparr>configValue := Some cfg_none\<rparr>)
     = (Err (''start attempted with role '' @ CHR 0x27 # ''none'' @ [CHR 0x27]),
        NewProcess\<lparr>configValue := Some cfg_none\<rparr>) \<and>
   Stop quiet_env NewProcess = (Err ''process already stopped'', NewProcess)"
  using Start_Stop_errors [of "running_as cfg_sync" quiet_env]
        Start_Stop_errors [of NewProcess quiet_env]
        Start_Stop_errors [of "NewProcess\<lparr>configValue := Some cfg_none\<rparr>" quiet_env]
  by (simp add: running_as_def NewProcess_def cfg_none_def)

subsection \<open>Reconfigure without a transition\<close>

text \<open>
  Claim C5, as the code has it. For a config that passes the checks of \<open>Reconfigure\<close> and
  has role none, or equals the config already applied, or turns a running async into a
  sync with the same upstream, \<open>Reconfigure\<close> returns nil, and the daemon, the catch-up
  wait and the synced downstream stay as they are. The new config is still recorded:
  stored and marked applied on a running process, stored and marked not applied on a
  stopped one.
\<close>

theorem Reconfigure_noop_cases:
  assumes "validate p c = None"
    and "Role c = RoleNone
         \<or> (configApplied p \<and> configValue p = Some c)
         \<or> (configApplied p \<and> runningValue p \<and> Role c = RoleSync
             \<and> (\<exists>old. configValue p = Some old \<and> Role old = RoleAsync \<and> same_upstream c old = Some True))"
  shows "Reconfigure env c p = (Nil, p\<lparr>configValue := Some c, configApplied := runningValue p\<rparr>)"
  using assms
  by (auto simp: Reconfigure_def reconfigure_def reconfigure_closure_def Equal_def
           split: option.splits)

theorem Reconfigure_noop_cases_witness:
  "Reconfigure quiet_env cfg_sync (running_as cfg_async)
     = (Nil, (running_as cfg_async)\<lparr>configValue := Some cfg_sync, configApplied := True\<rparr>)"
  using Reconfigure_noop_cases [of "running_as cfg_async" cfg_sync quiet_env]
  by (simp add: running_as_def cfg_sync_def cfg_async_def validate_def NewProcess_def
        same_upstream_def peerU_def meta_get_def)

text \<open>
  The claim as stated fails: a running primary that receives a config with role none
  keeps its daemon, but its stored config is now the one with role none.
\<close>

theorem Reconfigure_none_changes_config:
  "Reconfigure quiet_env cfg_none (running_as cfg_primary)
     = (Nil, (running_as cfg_primary)\<lparr>configValue := Some cfg_none\<rparr>)
   \<and> configValue (snd (Reconfigure quiet_env cfg_none (running_as cfg_primary)))
       \<noteq> configValue (running_as cfg_primary)"
  by (simp add: Reconfigure_def reconfigure_def reconfigure_closure_def validate_def
        running_as_def cfg_none_def cfg_primary_def NewProcess_def)

subsection \<open>Waiting for the upstream\<close>








subsection \<open>Promotion and the catch-up wait\<close>

text \<open>
  \<open>nodeXLogPosition\<close> never returns a position, so the loop of \<open>waitForSync\<close>, run on it, is
  cancelled, blocks in a read, or is still waiting; it never stores the synced downstream
  and never gives up.
\<close>

lemma nodeXLogPosition_no_position: "nodeXLogPosition a \<noteq> XPos x"
  by (cases a) (simp_all add: nodeXLogPosition_def)

lemma sync_loop_nodeXLogPosition:
  "sync_loop xl nodeXLogPosition rt st prev passes = Canceled
   \<or> sync_loop xl nodeXLogPosition rt st prev passes = Blocked
   \<or> sync_loop xl nodeXLogPosition rt st prev passes = Waiting"
proof (induction passes arbitrary: st prev)
  case Nil
  then show ?case by simp
next
  case (Cons k ks)
  show ?case
  proof (cases "nodeXLogPosition (master k)")
    case (XPos x)
    then show ?thesis using nodeXLogPosition_no_position by blast
  next
    case (XErr e)
    then show ?thesis using Cons.IH by simp
  next
    case XBlocked
    then show ?thesis by simp
  qed
qed

lemma goroutine_never_catches_up:
  "fst (waitForSync_goroutine xl rt t0 passes p) \<noteq> CaughtUp
   \<and> fst (waitForSync_goroutine xl rt t0 passes p) \<noteq> Stalled
   \<and> snd (waitForSync_goroutine xl rt t0 passes p) = p"
  using sync_loop_nodeXLogPosition [of xl rt t0 "Zero xl" passes]
  by (auto simp: waitForSync_goroutine_def split: option.splits wait_result.splits)

text \<open>
  The loop by itself, for any reader: the store happens only on a pass whose two positions
  were read in that pass and compare equal, and a pass with two positions that differ,
  read after more than \<open>replTimeout\<close>, ends the wait.
\<close>

lemma sync_loop_CaughtUp_fresh:
  "sync_loop xl rd rt st prev passes = CaughtUp \<Longrightarrow>
   \<exists>k \<in> set passes. \<exists>m s. rd (master k) = XPos m \<and> rd (slave k) = XPos s
      \<and> Compare xl m s = Some 0"
  by (induction passes arbitrary: st prev)
     (auto simp: Let_def split: if_splits xlog_read.splits)

lemma sync_loop_Stalled_pass:
  "\<not> stop_top k \<Longrightarrow> rd (master k) = XPos m \<Longrightarrow> rd (slave k) = XPos s \<Longrightarrow>
   Compare xl m s \<noteq> Some 0 \<Longrightarrow> rt < clock k - st \<Longrightarrow>
   sync_loop xl rd rt st prev (k # ks) = Stalled"
  by (simp add: Let_def)

text \<open>
  A running sync that is told to become primary keeps its daemon: the only effects are the
  cancelling of an earlier wait and the start of a new one, with \<open>enableWrites\<close> set.
\<close>

lemma promotion_keeps_daemon:
  assumes "runningValue p" "configValue p = Some old" "Role old = RoleSync"
    and "Role c = RolePrimary" "validate p c = None"
  shows "Reconfigure env c p
           = (Nil, (waitForSync (Downstream c) True
                      ((cancelSyncWait p)\<lparr>syncedDownstreamValue := None\<rparr>))
                   \<lparr>configValue := Some c, configApplied := True\<rparr>)"
  using assms
  by (auto simp: Reconfigure_def reconfigure_def reconfigure_closure_def assume_role_def
        assumePrimary_def IsNewDownstream_def Equal_def cancelSyncWait_def emit_def Let_def
        split: option.splits)

text \<open>
  Claim C3, evaluated: a process running as sync with downstream D receives
  \<open>Reconfigure\<close> with role primary and downstream D, and both oplog queries of the catch-up
  wait succeed with the same timestamp. The daemon is neither stopped nor started and the
  wait begins, but the goroutine blocks in its first read, \<open>syncedDownstream\<close> stays nil, and
  \<open>isReadWrite\<close> panics.
\<close>

theorem promotion_never_enables_writes:
  "Reconfigure quiet_env cfg_primary (running_as cfg_sync) = (Nil, promoted)
   \<and> effects promoted = [SyncWaitStart (Some peerD) True]
   \<and> runningValue promoted
   \<and> waitForSync_goroutine example_xlog DefaultReplTimeout 0 [equal_pass] promoted
       = (Blocked, promoted)
   \<and> syncedDownstreamValue promoted = None
   \<and> fst (isReadWrite promoted) = Panic ''FIXME(benbjohnson): isReadWrite()''"
  by (simp add: Reconfigure_def reconfigure_def reconfigure_closure_def assume_role_def
        assumePrimary_def IsNewDownstream_def Equal_def cancelSyncWait_def emit_def Let_def
        validate_def running_as_def cfg_primary_def cfg_sync_def NewProcess_def promoted_def
        waitForSync_def waitForSync_goroutine_def equal_pass_def nodeXLogPosition_def
        isReadWrite_def peerD_def peerU_def)

text \<open>
  Claim C4, evaluated: both oplog queries succeed, with different timestamps, and are
  compared 62 seconds after the start of a wait whose \<open>ReplTimeout\<close> is 60 seconds. The
  goroutine blocks in \<open>nodeXLogPosition\<close> and does not return; with a reader that returns
  what it read, the same pass ends the wait.
\<close>

theorem stalled_wait_never_returns:
  "waitForSync_goroutine example_xlog DefaultReplTimeout 0 [late_pass] promoted = (Blocked, promoted)
   \<and> sync_loop example_xlog returning_reader DefaultReplTimeout 0 [] [late_pass] = Stalled"
  by (simp add: waitForSync_goroutine_def promoted_def late_pass_def nodeXLogPosition_def
        example_xlog_def DefaultReplTimeout_def digits.simps digit_char_def returning_reader_def)

section \<open>Properties of the container backend\<close>

subsection \<open>SetDefaultEnv\<close>

text \<open>
  Claim C10. The first \<open>SetDefaultEnv\<close> with key DISCOVERD records the value and closes
  \<open>discoverdConfigured\<close>; a second one panics, since it closes the closed channel.
\<close>

theorem SetDefaultEnv_DISCOVERD:
  assumes "\<not> discoverdConfigured b"
  shows "fst (SetDefaultEnv ''DISCOVERD'' v b) = Nil
       \<and> discoverdConfigured (snd (SetDefaultEnv ''DISCOVERD'' v b))
       \<and> map_of (defaultEnv (snd (SetDefaultEnv ''DISCOVERD'' v b))) ''DISCOVERD'' = Some v
       \<and> fst (SetDefaultEnv ''DISCOVERD'' w (snd (SetDefaultEnv ''DISCOVERD'' v b)))
           = Panic ''close of closed channel''"
  using assms by (simp add: SetDefaultEnv_def Let_def)

theorem SetDefaultEnv_DISCOVERD_witness:
  "fst (SetDefaultEnv ''DISCOVERD'' ''http://10.0.0.1:1111'' (NewLibvirtLXCBackend [] [])) = Nil
   \<and> fst (SetDefaultEnv ''DISCOVERD'' ''http://10.0.0.1:1111''
            (snd (SetDefaultEnv ''DISCOVERD'' ''http://10.0.0.1:1111'' (NewLibvirtLXCBackend [] []))))
       = Panic ''close of closed channel''"
proof -
  have "\<not> discoverdConfigured (NewLibvirtLXCBackend [] [])"
    by (simp add: NewLibvirtLXCBackend_def)
  from SetDefaultEnv_DISCOVERD [OF this] show ?thesis by blast
qed

text \<open>
  Closing the channel is what lets a \<open>Run\<close> proceed that was waiting for discoverd.
\<close>

lemma fail_not_Pending: "fst (fail c e b) \<noteq> Pending"
  by (simp add: fail_def)

lemma domain_phase_not_Pending: "fst (domain_phase env c b) \<noteq> Pending"
  by (simp add: domain_phase_def fail_def split: option.splits sum.splits)

lemma Run_allocated_not_Pending: "fst (Run_allocated env c b) \<noteq> Pending"
  by (simp add: Run_allocated_def Let_def fail_def domain_phase_not_Pending
        split: option.splits prod.splits)

lemma SetDefaultEnv_unblocks_Run:
  assumes "\<not> discoverdConfigured b" "GetJob (ID j) b = Some aj" "\<not> ForceStop aj"
    and "Partition j \<noteq> []" "map_of (partitionCGroups b) (Partition j) \<noteq> None"
    and "HostNetwork j" "map_of (job_env j) ''DISCOVERD'' = None"
  shows "fst (Run env j b) = Pending"
    and "fst (Run env j (snd (SetDefaultEnv ''DISCOVERD'' v b))) \<noteq> Pending"
  using assms Run_allocated_not_Pending
  by (auto simp: Run_def SetDefaultEnv_def Let_def GetJob_def split: sum.splits)

subsection \<open>Stop\<close>

lemma map_of_map_del [simp]: "map_of (map_del k m) k = None"
  by (induction m) (auto simp: map_del_def)

lemma containers_SetStatusFailed [simp]: "containers (SetStatusFailed jid e b) = containers b"
  by (simp add: SetStatusFailed_def split: option.splits)

lemma containers_SetStatusDone [simp]: "containers (SetStatusDone jid n b) = containers b"
  by (simp add: SetStatusDone_def split: option.splits)

lemma containers_cleanup [simp]: "containers (cleanup c b) = containers b"
  by (simp add: cleanup_def unbindMounts_def ReleaseIP_def Let_def split: option.splits)

lemma watch_finish_unregisters:
  "map_of (containers (watch_finish ch c b)) (ID (cjob c)) = None"
  by (cases ch) (simp_all add: watch_finish_def Let_def)

text \<open>
  Claim C1, as the code has it. \<open>Stop\<close> of an id without a registered container returns
  "libvirt: unknown container". For a registered container whose job is done or failed it
  returns nil and changes nothing, provided the \<open>SIGTERM\<close> reaches the init or meets a shut
  down connection. A \<open>Stop\<close> that waits for the watcher to end finds the container
  unregistered afterwards, so the next \<open>Stop\<close> of that id returns the error.
\<close>

theorem Stop_job_cases:
  "(map_of (containers b) jid = None \<longrightarrow>
      Stop_job env jid b = (Err ''libvirt: unknown container'', b))
   \<and> (map_of (containers b) jid = Some c \<and> GetJob (ID (cjob c)) b = Some j
        \<and> (Status j = StatusDone \<or> Status j = StatusFailed)
        \<and> (sigterm env = RpcOk \<or> sigterm env = RpcShutdown) \<longrightarrow>
      Stop_job env jid b = (Nil, b))
   \<and> (map_of (containers b) jid = Some c \<and> ID (cjob c) = jid \<and> GetJob jid b = Some j
        \<and> Status j \<noteq> StatusDone \<and> Status j \<noteq> StatusFailed
        \<and> sigterm env = RpcOk \<and> watcher_ends env = Some ch \<longrightarrow>
      fst (Stop_job env jid b) = Nil
      \<and> Stop_job env2 jid (snd (Stop_job env jid b))
          = (Err ''libvirt: unknown container'', snd (Stop_job env jid b)))"
  using watch_finish_unregisters [of ch c b]
  by (auto simp: Stop_job_def getContainer_def container_Stop_def)

theorem Stop_job_cases_witness:
  "Stop_job clean_stop ''host-web9'' running_backend
     = (Err ''libvirt: unknown container'', running_backend)
   \<and> fst (Stop_job clean_stop ''host-web1'' running_backend) = Nil
   \<and> fst (Stop_job clean_stop ''host-web1'' (snd (Stop_job clean_stop ''host-web1'' running_backend)))
       = Err ''libvirt: unknown container''"
  using Stop_job_cases [of running_backend "''host-web9''" clean_stop]
        Stop_job_cases [of running_backend "''host-web1''" clean_stop web_container
                           "starting\<lparr> Status := StatusRunning \<rparr>" "Exited 0" clean_stop]
  by (simp add: running_backend_def ready_backend_def NewLibvirtLXCBackend_def
        web_container_def web_job_def GetJob_def clean_stop_def starting_def)

text \<open>
  The claim as stated fails: after a first \<open>Stop\<close> that returned nil, with the job done, a
  second \<open>Stop\<close> of the same id returns an error.
\<close>

theorem second_Stop_fails:
  "fst (Stop_job clean_stop ''host-web1'' running_backend) = Nil
   \<and> map_option Status (GetJob ''host-web1'' (snd (Stop_job clean_stop ''host-web1'' running_backend)))
       = Some StatusDone
   \<and> fst (Stop_job clean_stop ''host-web1'' (snd (Stop_job clean_stop ''host-web1'' running_backend)))
       = Err ''libvirt: unknown container''"
  by (simp add: Stop_job_def getContainer_def container_Stop_def watch_finish_def Let_def
        running_backend_def ready_backend_def NewLibvirtLXCBackend_def web_container_def
        web_job_def GetJob_def clean_stop_def starting_def SetStatusDone_def terminal_def
        map_put_def map_del_def cleanup_def unbindMounts_def ReleaseIP_def unbind_paths_def
        path_join_def)

subsection \<open>Cleanup\<close>

lemma collect_last:
  "collect err rs = (if filter (\<lambda>r. r \<noteq> Nil) rs = [] then err else last (filter (\<lambda>r. r \<noteq> Nil) rs))"
  by (induction rs arbitrary: err) auto

lemma length_stop_all: "length (fst (stop_all envs ids b)) = length ids"
proof (induction ids arbitrary: b)
  case Nil
  then show ?case by simp
next
  case (Cons a ids)
  obtain r b1 where s1: "Stop_job (envs a) a b = (r, b1)" by (cases "Stop_job (envs a) a b")
  obtain rs b2 where s2: "stop_all envs ids b1 = (rs, b2)" by (cases "stop_all envs ids b1")
  from Cons [of b1] s2 have "length rs = length ids" by simp
  then show ?case using s1 s2 by simp
qed

lemma set_cleanup_ids: "set (cleanup_ids except b) = fst ` set (containers b) - set except"
  by (auto simp: cleanup_ids_def)

text \<open>
  Claim C7, as the code has it. \<open>Cleanup\<close> runs one \<open>Stop\<close> for every registered container
  whose id is not in \<open>except\<close>, receives as many results, and returns the error received
  last among them, nil when every \<open>Stop\<close> returned nil.
\<close>

theorem Cleanup_returns_last_error:
  "fst (Cleanup except finish envs b)
     = (if filter (\<lambda>r. r \<noteq> Nil) (fst (stop_all envs (sort_key finish (cleanup_ids except b)) b)) = []
        then Nil
        else last (filter (\<lambda>r. r \<noteq> Nil) (fst (stop_all envs (sort_key finish (cleanup_ids except b)) b))))
   \<and> set (sort_key finish (cleanup_ids except b)) = fst ` set (containers b) - set except
   \<and> length (fst (stop_all envs (sort_key finish (cleanup_ids except b)) b))
       = length (cleanup_ids except b)"
  by (simp add: Cleanup_def collect_last length_stop_all set_cleanup_ids split: prod.splits)

text \<open>
  The claim as stated fails: with two containers whose stops both fail, the one for a
  first, the error returned is the one for b, the second.
\<close>

theorem Cleanup_returns_not_first:
  "fst (stop_all failing_stops (sort_key a_then_b (cleanup_ids [] two_backend)) two_backend)
     = [Err ''no route to a'', Err ''no route to b'']
   \<and> fst (Cleanup [] a_then_b failing_stops two_backend) = Err ''no route to b''"
  by (simp add: Cleanup_def cleanup_ids_def two_backend_def ready_backend_def
        NewLibvirtLXCBackend_def a_then_b_def failing_stops_def Stop_job_def getContainer_def
        container_Stop_def web_container_def job_named_def web_job_def)

subsection \<open>Run: decimal strings\<close>






subsection \<open>Run: the port loop\<close>









subsection \<open>Run: the mounts\<close>










subsection \<open>Run: error returns and cleanup\<close>

lemma SetStatusFailed_fields [simp]:
  "mount_table (SetStatusFailed jid e b) = mount_table b"
  "ipalloc (SetStatusFailed jid e b) = ipalloc b"
  "bridgeNet (SetStatusFailed jid e b) = bridgeNet b"
  "goroutines (SetStatusFailed jid e b) = goroutines b"
  "written (SetStatusFailed jid e b) = written b"
  by (simp_all add: SetStatusFailed_def split: option.splits)

lemma SetContainerID_fields [simp]:
  "mount_table (SetContainerID jid u b) = mount_table b"
  "ipalloc (SetContainerID jid u b) = ipalloc b"
  "bridgeNet (SetContainerID jid u b) = bridgeNet b"
  "goroutines (SetContainerID jid u b) = goroutines b"
  "written (SetContainerID jid u b) = written b"
  by (simp_all add: SetContainerID_def split: option.splits)

lemma SetContainerIP_fields [simp]:
  "mount_table (SetContainerIP jid u b) = mount_table b"
  "ipalloc (SetContainerIP jid u b) = ipalloc b"
  "bridgeNet (SetContainerIP jid u b) = bridgeNet b"
  "goroutines (SetContainerIP jid u b) = goroutines b"
  "written (SetContainerIP jid u b) = written b"
  by (simp_all add: SetContainerIP_def split: option.splits)
















subsection \<open>Run: ports in the init config\<close>






end
